theory Spec2Isabelle
  imports Main "HOL-Library.Word"
begin

section \<open>JavaScript values\<close>

text \<open>
  The relay (\<open>index.js\<close>) and the browser client (\<open>public/script.js\<close>) handle values
  that arrive as JSON: the provider's response, the request body, the relay's reply.
  A value is a finite tree. An object is the list of its own properties in enumeration
  order; it inherits from \<open>Object.prototype\<close> and holds no function. \<open>JUndefined\<close> is
  JavaScript's \<open>undefined\<close>, which the code produces itself (a missing property, \<open>m.role\<close>
  of a message without a role) and which may sit in an object or array built by the code.

  A number is a \<open>54 word\<close> read as a signed integer: the integers from \<open>-2^53\<close> to
  \<open>2^53 - 1\<close>. Each of them is a JavaScript number, and \<open>ToString\<close> and \<open>JSON.stringify\<close>
  write each in plain decimal. Every value of the type is one of these integers, and no
  function of the model computes with numbers, so the word's wrap-around plays no role.
  Numbers with a fraction and integers of a larger magnitude, which JavaScript rounds
  and writes with an exponent, are outside the model.
\<close>

datatype jsval =
    JUndefined
  | JNull
  | JBool bool
  | JNum "54 word"
  | JStr string
  | JArr "jsval list"
  | JObj "(string \<times> jsval) list"

text \<open>What a \<open>throw\<close> carries: an \<open>Error\<close> made by the code with its message, or a
  \<open>TypeError\<close> raised by the language (reading a property of \<open>null\<close>, calling something
  that is not a function, converting an object that has no usable \<open>toString\<close>). The
  message of a \<open>TypeError\<close> is the engine's; the model uses the wording of V8 (Node and
  Chrome).\<close>

datatype jsexn = Error string | TypeError string

fun exn_message :: "jsexn \<Rightarrow> string" where
  "exn_message (Error m) = m"
| "exn_message (TypeError m) = m"

fun nullish :: "jsval \<Rightarrow> bool" where
  "nullish JUndefined = True"
| "nullish JNull = True"
| "nullish _ = False"

text \<open>\<open>Boolean(v)\<close>, the truthiness used by \<open>!\<close>, \<open>||\<close>, \<open>&&\<close> and \<open>filter(Boolean)\<close>.\<close>

fun truthy :: "jsval \<Rightarrow> bool" where
  "truthy JUndefined = False"
| "truthy JNull = False"
| "truthy (JBool b) = b"
| "truthy (JNum n) = (n \<noteq> 0)"
| "truthy (JStr s) = (s \<noteq> [])"
| "truthy (JArr _) = True"
| "truthy (JObj _) = True"

subsection \<open>Numbers as decimal strings\<close>

definition digit_char :: "nat \<Rightarrow> char" where
  "digit_char d = ''0123456789'' ! d"

function show_nat :: "nat \<Rightarrow> string" where
  "show_nat n = (if n < 10 then [digit_char n] else show_nat (n div 10) @ [digit_char (n mod 10)])"
  by pat_completeness auto
termination
  by (relation "measure id") auto

declare show_nat.simps [simp del]

definition show_int :: "int \<Rightarrow> string" where
  "show_int i = (if i < 0 then CHR ''-'' # show_nat (nat (- i)) else show_nat (nat i))"

subsection \<open>Property access\<close>

text \<open>
  A property key is a name or an array index (\<open>v.name\<close>, \<open>v[0]\<close>). \<open>getp\<close> is the read
  \<open>v[key]\<close> on a value that is neither \<open>null\<close> nor \<open>undefined\<close>: an own property of an
  object, an element of an array, a character of a string, and \<open>undefined\<close> for
  everything else. The names the code reads (\<open>response\<close>, \<open>candidates\<close>, \<open>content\<close>,
  \<open>parts\<close>, \<open>text\<close>, \<open>messages\<close>, \<open>role\<close>, \<open>error\<close>, \<open>result\<close>) are not inherited from
  any prototype; the one inherited method it calls, \<open>map\<close>, is modelled by
  \<open>map_text\<close> below.
\<close>

datatype pkey = Name string | Index nat

fun key_string :: "pkey \<Rightarrow> string" where
  "key_string (Name n) = n"
| "key_string (Index i) = show_nat i"

fun lookup :: "(string \<times> jsval) list \<Rightarrow> string \<Rightarrow> jsval" where
  "lookup [] k = JUndefined"
| "lookup ((k', v) # kvs) k = (if k' = k then v else lookup kvs k)"

fun getp :: "jsval \<Rightarrow> pkey \<Rightarrow> jsval" where
  "getp (JObj kvs) k = lookup kvs (key_string k)"
| "getp (JArr xs) (Index i) = (if i < length xs then xs ! i else JUndefined)"
| "getp (JStr s) (Index i) = (if i < length s then JStr [s ! i] else JUndefined)"
| "getp _ _ = JUndefined"

text \<open>\<open>v?.[key]\<close>: \<open>undefined\<close> when \<open>v\<close> is \<open>null\<close> or \<open>undefined\<close>, the read otherwise.\<close>

definition optget :: "jsval \<Rightarrow> pkey \<Rightarrow> jsval" where
  "optget v k = (if nullish v then JUndefined else getp v k)"

text \<open>A chain \<open>v?.a?.b?.c\<close> in which every link is optional.\<close>

fun optchain :: "jsval \<Rightarrow> pkey list \<Rightarrow> jsval" where
  "optchain v [] = v"
| "optchain v (k # ks) = optchain (optget v k) ks"

subsection \<open>\<open>ToString\<close> and \<open>Array.prototype.join\<close>\<close>

fun intercalate :: "string \<Rightarrow> string list \<Rightarrow> string" where
  "intercalate sep [] = []"
| "intercalate sep [x] = x"
| "intercalate sep (x # y # ys) = x @ sep @ intercalate sep (y # ys)"

text \<open>The results of a list of conversions, or the first exception among them.\<close>

fun collect :: "(jsexn + string) list \<Rightarrow> jsexn + string list" where
  "collect [] = Inr []"
| "collect (Inl e # rs) = Inl e"
| "collect (Inr x # rs) = (case collect rs of Inl e \<Rightarrow> Inl e | Inr xs \<Rightarrow> Inr (x # xs))"

text \<open>
  \<open>ToString\<close>. An array is joined with commas, its \<open>null\<close> and \<open>undefined\<close> elements
  as empty strings. An object is converted by its \<open>toString\<close>: the inherited one gives
  \<open>[object Object]\<close>; an own property of that name hides it, is not a function, and the
  inherited \<open>valueOf\<close> returns the object itself, so the conversion throws.
\<close>

fun to_string :: "jsval \<Rightarrow> jsexn + string" where
  "to_string JUndefined = Inr ''undefined''"
| "to_string JNull = Inr ''null''"
| "to_string (JBool b) = Inr (if b then ''true'' else ''false'')"
| "to_string (JNum n) = Inr (show_int (sint n))"
| "to_string (JStr s) = Inr s"
| "to_string (JArr xs) =
     (case collect (map (\<lambda>x. if nullish x then Inr [] else to_string x) xs) of
        Inl e \<Rightarrow> Inl e
      | Inr ss \<Rightarrow> Inr (intercalate '','' ss))"
| "to_string (JObj kvs) =
     (if ''toString'' \<in> set (map fst kvs)
      then Inl (TypeError ''Cannot convert object to primitive value'')
      else Inr ''[object Object]'')"

text \<open>\<open>xs.join(sep)\<close>: \<open>null\<close> and \<open>undefined\<close> elements become the empty string.\<close>

definition js_join :: "string \<Rightarrow> jsval list \<Rightarrow> jsexn + string" where
  "js_join sep xs =
     (case collect (map (\<lambda>x. if nullish x then Inr [] else to_string x) xs) of
        Inl e \<Rightarrow> Inl e
      | Inr ss \<Rightarrow> Inr (intercalate sep ss))"

text \<open>The message of the \<open>TypeError\<close> for reading the property \<open>p\<close> of \<open>null\<close> or \<open>undefined\<close>.\<close>

definition cannot_read :: "jsval \<Rightarrow> string \<Rightarrow> string" where
  "cannot_read v p =
     ''Cannot read properties of '' @ (if v = JNull then ''null'' else ''undefined'')
     @ '' (reading '' @ [CHR 0x27] @ p @ [CHR 0x27] @ '')''"

subsection \<open>\<open>JSON.stringify(value, null, 2)\<close>\<close>

text \<open>
  The serialisation of ECMAScript's \<open>JSON.stringify\<close> with an indentation of two
  spaces. \<open>undefined\<close> has no rendering: at the top level the call returns \<open>undefined\<close>,
  inside an array it is written \<open>null\<close>, and a property holding it is left out.
\<close>

definition hex_digit :: "nat \<Rightarrow> char" where
  "hex_digit d = ''0123456789abcdef'' ! d"

definition quote_char :: "char \<Rightarrow> string" where
  "quote_char c =
     (if c = CHR 0x08 then [CHR 0x5C, CHR ''b'']
      else if c = CHR 0x09 then [CHR 0x5C, CHR ''t'']
      else if c = CHR 0x0A then [CHR 0x5C, CHR ''n'']
      else if c = CHR 0x0C then [CHR 0x5C, CHR ''f'']
      else if c = CHR 0x0D then [CHR 0x5C, CHR ''r'']
      else if c = CHR 0x22 then [CHR 0x5C, CHR 0x22]
      else if c = CHR 0x5C then [CHR 0x5C, CHR 0x5C]
      else if of_char c < (32::nat)
        then [CHR 0x5C, CHR ''u'', CHR ''0'', CHR ''0'',
              hex_digit (of_char c div 16), hex_digit (of_char c mod 16)]
      else [c])"

definition quote_json :: "string \<Rightarrow> string" where
  "quote_json s = CHR 0x22 # concat (map quote_char s) @ [CHR 0x22]"

definition gap :: string where
  "gap = ''  ''"

fun json_ser :: "string \<Rightarrow> jsval \<Rightarrow> string option" where
  "json_ser ind JUndefined = None"
| "json_ser ind JNull = Some ''null''"
| "json_ser ind (JBool b) = Some (if b then ''true'' else ''false'')"
| "json_ser ind (JNum n) = Some (show_int (sint n))"
| "json_ser ind (JStr s) = Some (quote_json s)"
| "json_ser ind (JArr xs) =
     (let partial = map (\<lambda>x. case json_ser (ind @ gap) x of None \<Rightarrow> ''null'' | Some t \<Rightarrow> t) xs
      in if partial = [] then Some ''[]''
         else Some (''['' @ [CHR 0x0A] @ (ind @ gap)
                    @ intercalate ('','' @ [CHR 0x0A] @ (ind @ gap)) partial
                    @ [CHR 0x0A] @ ind @ '']''))"
| "json_ser ind (JObj kvs) =
     (let partial = concat (map (\<lambda>kv. case json_ser (ind @ gap) (snd kv) of
                                          None \<Rightarrow> []
                                        | Some t \<Rightarrow> [quote_json (fst kv) @ '': '' @ t]) kvs)
      in if partial = [] then Some ''{}''
         else Some (''{'' @ [CHR 0x0A] @ (ind @ gap)
                    @ intercalate ('','' @ [CHR 0x0A] @ (ind @ gap)) partial
                    @ [CHR 0x0A] @ ind @ ''}''))"

definition JSON_stringify :: "jsval \<Rightarrow> jsval" where
  "JSON_stringify v = (case json_ser [] v of None \<Rightarrow> JUndefined | Some s \<Rightarrow> JStr s)"

section \<open>The relay: \<open>index.js\<close>\<close>

subsection \<open>\<open>extractText\<close>\<close>

text \<open>
  \<open>parts?.map((p) => p.text).filter(Boolean).join("\n")\<close>. The callback reads \<open>p.text\<close>
  with a plain dot, which throws on \<open>null\<close> and \<open>undefined\<close>.
\<close>

fun map_text :: "jsval list \<Rightarrow> jsexn + jsval list" where
  "map_text [] = Inr []"
| "map_text (p # ps) =
     (if nullish p then Inl (TypeError (cannot_read p ''text''))
      else (case map_text ps of Inl e \<Rightarrow> Inl e | Inr ts \<Rightarrow> Inr (getp p (Name ''text'') # ts)))"

text \<open>
  The whole optional call: a nullish \<open>parts\<close> short-circuits the rest of the chain to
  \<open>undefined\<close>; an array is mapped, filtered and joined; anything else has no callable
  \<open>map\<close>, so the call throws. The join throws when an element cannot be converted to
  a string. The engine's message for the call that fails quotes the expression called;
  \<open>extractText\<close> catches the exception and drops it, and the model keeps a short message.
\<close>

fun join_parts :: "jsval \<Rightarrow> jsexn + jsval" where
  "join_parts JUndefined = Inr JUndefined"
| "join_parts JNull = Inr JUndefined"
| "join_parts (JArr ps) =
     (case map_text ps of
        Inl e \<Rightarrow> Inl e
      | Inr ts \<Rightarrow>
          (case js_join [CHR 0x0A] (filter truthy ts) of
             Inl e \<Rightarrow> Inl e
           | Inr joined \<Rightarrow> Inr (JStr joined)))"
| "join_parts _ = Inl (TypeError ''parts.map is not a function'')"

definition response_parts :: "pkey list" where
  "response_parts = [Name ''response'', Name ''candidates'', Index 0, Name ''content'', Name ''parts'']"

definition candidates_parts :: "pkey list" where
  "candidates_parts = [Name ''candidates'', Index 0, Name ''content'', Name ''parts'']"

definition first_text :: "pkey list" where
  "first_text = [Index 0, Name ''text'']"

text \<open>
  The body of the \<open>try\<close> up to the value of \<open>text\<close>: the four alternatives of the \<open>??\<close>
  chain, each evaluated only when the ones before it are nullish.
\<close>

definition extract_chain :: "jsval \<Rightarrow> jsexn + jsval" where
  "extract_chain resp =
     (let t1 = optchain resp (response_parts @ first_text) in
      if \<not> nullish t1 then Inr t1
      else let t2 = optchain resp (candidates_parts @ first_text) in
      if \<not> nullish t2 then Inr t2
      else (case join_parts (optchain resp response_parts) of
              Inl e \<Rightarrow> Inl e
            | Inr t3 \<Rightarrow> if \<not> nullish t3 then Inr t3
                        else join_parts (optchain resp candidates_parts)))"

text \<open>
  \<open>extractText\<close>: \<open>return text ?? JSON.stringify(resp, null, 2)\<close>, and the same rendering
  from the \<open>catch\<close> when the chain threw. The result is \<open>Inl\<close> when an exception leaves
  the function.
\<close>

definition extractText :: "jsval \<Rightarrow> jsexn + jsval" where
  "extractText resp =
     (case extract_chain resp of
        Inr text \<Rightarrow> Inr (if nullish text then JSON_stringify resp else text)
      | Inl err \<Rightarrow> Inr (JSON_stringify resp))"

subsection \<open>\<open>POST /api/chat\<close>\<close>

text \<open>
  The process environment, read once at start-up: \<open>API_KEY\<close> is
  \<open>process.env.GEMINI_API_KEY || process.env.API_KEY\<close> and \<open>GEMINI_MODEL\<close> is
  \<open>process.env.GEMINI_MODEL || "gemini-2.5-flash"\<close>. A variable that is not set is \<open>None\<close>;
  an empty string is falsy, as in JavaScript.
\<close>

record env =
  env_GEMINI_API_KEY :: "string option"
  env_API_KEY :: "string option"
  env_GEMINI_MODEL :: "string option"

definition or_env :: "string option \<Rightarrow> string option \<Rightarrow> string option" where
  "or_env a b = (case a of Some k \<Rightarrow> (if k \<noteq> [] then Some k else b) | None \<Rightarrow> b)"

definition API_KEY :: "env \<Rightarrow> string option" where
  "API_KEY e = or_env (env_GEMINI_API_KEY e) (env_API_KEY e)"

definition GEMINI_MODEL :: "env \<Rightarrow> string" where
  "GEMINI_MODEL e = (case or_env (env_GEMINI_MODEL e) (Some ''gemini-2.5-flash'') of
                       Some m \<Rightarrow> m | None \<Rightarrow> ''gemini-2.5-flash'')"

definition has_key :: "env \<Rightarrow> bool" where
  "has_key e = (case API_KEY e of Some k \<Rightarrow> k \<noteq> [] | None \<Rightarrow> False)"

text \<open>
  The provider's package is outside the repository and is a parameter of the model:
  which client class it exports, if any (\<open>GoogleGenerativeAI || GoogleGenAI\<close>), what
  the client offers (\<open>client.models.generateContent\<close>, \<open>client.getGenerativeModel\<close> or
  neither), and the call itself, which answers with a response or throws.
\<close>

datatype client = ModelsClient | GenerativeModelClient | OtherClient

record genai =
  GeminiClient :: "client option"
  generateContent :: "string \<Rightarrow> jsval \<Rightarrow> jsexn + jsval"

definition getClient :: "env \<Rightarrow> genai \<Rightarrow> jsexn + client option" where
  "getClient e pkg =
     (if \<not> has_key e then Inr None
      else (case GeminiClient pkg of
              None \<Rightarrow> Inl (TypeError ''GeminiClient is not a constructor'')
            | Some cl \<Rightarrow> Inr (Some cl)))"

record response =
  status :: nat
  body :: jsval

text \<open>\<open>messages.map((m) => ({ role: m.role, parts: [{ text: m.content }] }))\<close>\<close>

fun to_contents :: "jsval list \<Rightarrow> jsexn + jsval list" where
  "to_contents [] = Inr []"
| "to_contents (m # ms) =
     (if nullish m then Inl (TypeError (cannot_read m ''role''))
      else (case to_contents ms of
              Inl e \<Rightarrow> Inl e
            | Inr cs \<Rightarrow> Inr (JObj [(''role'', getp m (Name ''role'')),
                                     (''parts'', JArr [JObj [(''text'', getp m (Name ''content''))]])] # cs)))"

text \<open>\<open>const { messages } = req.body || {}\<close>\<close>

definition request_messages :: "jsval \<Rightarrow> jsval" where
  "request_messages req_body = getp (if truthy req_body then req_body else JObj []) (Name ''messages'')"

fun is_array :: "jsval \<Rightarrow> bool" where
  "is_array (JArr _) = True"
| "is_array _ = False"

text \<open>The body of the handler's \<open>try\<close>: \<open>Inl\<close> is an exception on its way to the \<open>catch\<close>.\<close>

definition chat_try :: "env \<Rightarrow> genai \<Rightarrow> jsval \<Rightarrow> jsexn + response" where
  "chat_try e pkg req_body =
     (case request_messages req_body of
        JArr messages \<Rightarrow>
          (case getClient e pkg of
             Inl err \<Rightarrow> Inl err
           | Inr None \<Rightarrow>
               Inr \<lparr>status = 503,
                    body = JObj [(''error'', JStr ''Missing GEMINI_API_KEY (or API_KEY) in environment.'')]\<rparr>
           | Inr (Some cl) \<Rightarrow>
               (case to_contents messages of
                  Inl err \<Rightarrow> Inl err
                | Inr contents \<Rightarrow>
                    (if cl = OtherClient then Inl (Error ''Unsupported Gemini client instance'')
                     else (case generateContent pkg (GEMINI_MODEL e) (JArr contents) of
                             Inl err \<Rightarrow> Inl err
                           | Inr resp \<Rightarrow>
                               (case extractText resp of
                                  Inl err \<Rightarrow> Inl err
                                | Inr text \<Rightarrow> Inr \<lparr>status = 200, body = JObj [(''result'', text)]\<rparr>)))))
      | _ \<Rightarrow> Inl (Error ''messages must be an array''))"

text \<open>
  The handler: what the \<open>try\<close> answers, or \<open>res.status(500).json({ error: err.message })\<close>
  from the \<open>catch\<close>. \<open>Inl\<close> would be an exception that escapes the handler.
\<close>

definition chat_handler :: "env \<Rightarrow> genai \<Rightarrow> jsval \<Rightarrow> jsexn + response" where
  "chat_handler e pkg req_body =
     (case chat_try e pkg req_body of
        Inr r \<Rightarrow> Inr r
      | Inl err \<Rightarrow> Inr \<lparr>status = 500, body = JObj [(''error'', JStr (exn_message err))]\<rparr>)"

section \<open>Strings and regular expressions\<close>

text \<open>
  A string is a list of characters, the 256 values of HOL's \<open>char\<close>. A JavaScript
  string is a sequence of 16-bit code units, so text beyond U+00FF is outside the model.
  The character classes are the ones of ECMAScript restricted to the characters of the
  model: \<open>\s\<close> and \<open>trim\<close> take the white space and
  the line terminators, \<open>.\<close> and the anchors of a multiline pattern take the line
  terminators, \<open>\d\<close> the decimal digits.
\<close>

definition js_space :: "char \<Rightarrow> bool" where
  "js_space c = (c = CHR 0x09 \<or> c = CHR 0x0A \<or> c = CHR 0x0B \<or> c = CHR 0x0C \<or> c = CHR 0x0D
                 \<or> c = CHR 0x20 \<or> c = CHR 0xA0)"

definition line_terminator :: "char \<Rightarrow> bool" where
  "line_terminator c = (c = CHR 0x0A \<or> c = CHR 0x0D)"

definition js_digit :: "char \<Rightarrow> bool" where
  "js_digit c = (48 \<le> (of_char c :: nat) \<and> (of_char c :: nat) \<le> 57)"

text \<open>
  The patterns of \<open>script.js\<close> use literals, \<open>.\<close>, character classes, \<open>^\<close> and \<open>$\<close>,
  sequences, alternatives, greedy and lazy quantifiers and capturing groups. \<open>Rep mn mx g r\<close>
  is \<open>r\<close> repeated at least \<open>mn\<close> and at most \<open>mx\<close> times (\<open>None\<close>: no bound), greedy
  when \<open>g\<close>; \<open>Grp n r\<close> is the \<open>n\<close>-th pair of capturing parentheses.
\<close>

datatype citem = CChar char | CSpace | CNotSpace | CDigit

fun in_item :: "citem \<Rightarrow> char \<Rightarrow> bool" where
  "in_item (CChar a) c = (c = a)"
| "in_item CSpace c = js_space c"
| "in_item CNotSpace c = (\<not> js_space c)"
| "in_item CDigit c = js_digit c"

datatype regex =
    Eps
  | Lit char
  | Dot
  | Cls bool "citem list"
  | Bol
  | Eol
  | Seq regex regex
  | Alt regex regex
  | Rep nat "nat option" bool regex
  | Grp nat regex

text \<open>
  A match state is a position in the subject and the captures so far, each a pair of
  a start and an end position. \<open>rmatch\<close> lists the states in which the pattern can end
  when started in a given state, in the order in which a backtracking matcher tries
  them, so the head of the list is the match that ECMAScript reports. An iteration of a
  quantifier past its minimum must consume input, as in ECMAScript's \<open>RepeatMatcher\<close>.
  The first argument is the \<open>m\<close> flag.
\<close>

type_synonym caps = "nat \<rightharpoonup> nat \<times> nat"

fun rsize :: "regex \<Rightarrow> nat" where
  "rsize (Seq a b) = Suc (rsize a + rsize b)"
| "rsize (Alt a b) = Suc (rsize a + rsize b)"
| "rsize (Rep mn mx g r) = Suc (mn + rsize r)"
| "rsize (Grp n r) = Suc (rsize r)"
| "rsize _ = 0"

function rmatch :: "bool \<Rightarrow> regex \<Rightarrow> string \<Rightarrow> nat \<times> caps \<Rightarrow> (nat \<times> caps) list" where
  "rmatch ml Eps s (p, c) = [(p, c)]"
| "rmatch ml (Lit a) s (p, c) = (if p < length s \<and> s ! p = a then [(Suc p, c)] else [])"
| "rmatch ml Dot s (p, c) = (if p < length s \<and> \<not> line_terminator (s ! p) then [(Suc p, c)] else [])"
| "rmatch ml (Cls neg items) s (p, c) =
     (if p < length s \<and> ((\<exists>i \<in> set items. in_item i (s ! p)) \<noteq> neg) then [(Suc p, c)] else [])"
| "rmatch ml Bol s (p, c) =
     (if p = 0 \<or> (ml \<and> p \<le> length s \<and> line_terminator (s ! (p - 1))) then [(p, c)] else [])"
| "rmatch ml Eol s (p, c) =
     (if p = length s \<or> (ml \<and> p < length s \<and> line_terminator (s ! p)) then [(p, c)] else [])"
| "rmatch ml (Seq a b) s (p, c) = concat (map (rmatch ml b s) (rmatch ml a s (p, c)))"
| "rmatch ml (Alt a b) s (p, c) = rmatch ml a s (p, c) @ rmatch ml b s (p, c)"
| "rmatch ml (Grp n r) s (p, c) = map (\<lambda>y. (fst y, (snd y)(n \<mapsto> (p, fst y)))) (rmatch ml r s (p, c))"
| "rmatch ml (Rep mn mx g r) s (p, c) =
     (if mx = Some 0 then [(p, c)]
      else
        let more = concat (map (\<lambda>y.
                     if mn = 0 \<and> \<not> (p < fst y \<and> fst y \<le> length s) then []
                     else rmatch ml (Rep (mn - 1) (map_option (\<lambda>k. k - 1) mx) g r) s y)
                   (rmatch ml r s (p, c)))
        in if mn \<noteq> 0 then more
           else if g then more @ [(p, c)]
           else (p, c) # more)"
  by pat_completeness auto
termination
  apply (relation "measures [\<lambda>(ml, r, s, y). rsize r, \<lambda>(ml, r, s, y). length s - fst y]")
           apply auto
  done


subsection \<open>Searching and replacing\<close>

text \<open>
  \<open>find_match\<close> is the search of \<open>RegExp.prototype.exec\<close>: the first start position, from
  \<open>i\<close> on, at which the pattern matches, with the end and the captures of that match.
  \<open>replace_scan\<close> is \<open>String.prototype.replace\<close> with a \<open>g\<close> pattern: \<open>i\<close> is the start
  position tried next, \<open>nxt\<close> the pattern's \<open>lastIndex\<close> (positions before it belong to the
  previous match and are skipped; an empty match advances it by one), \<open>pos\<close> the end of
  the previous match, from which the subject is copied. \<open>rep\<close> computes the replacement
  from the subject, the start and end of the match and its captures.
\<close>

function find_match :: "bool \<Rightarrow> regex \<Rightarrow> string \<Rightarrow> nat \<Rightarrow> (nat \<times> nat \<times> caps) option" where
  "find_match ml re s i =
     (if length s < i then None
      else (case rmatch ml re s (i, Map.empty) of
              [] \<Rightarrow> find_match ml re s (Suc i)
            | y # _ \<Rightarrow> Some (i, fst y, snd y)))"
  by pat_completeness auto
termination
  by (relation "measure (\<lambda>(ml, re, s, i). Suc (length s) - i)") auto

declare find_match.simps [simp del]

function replace_scan ::
  "bool \<Rightarrow> regex \<Rightarrow> (string \<Rightarrow> nat \<Rightarrow> nat \<Rightarrow> caps \<Rightarrow> string) \<Rightarrow> string \<Rightarrow> nat \<Rightarrow> nat \<Rightarrow> nat \<Rightarrow> string" where
  "replace_scan ml re rep s i nxt pos =
     (if length s < i then drop pos s
      else if i < nxt then replace_scan ml re rep s (Suc i) nxt pos
      else (case rmatch ml re s (i, Map.empty) of
              [] \<Rightarrow> replace_scan ml re rep s (Suc i) nxt pos
            | y # _ \<Rightarrow>
                take (i - pos) (drop pos s) @ rep s i (fst y) (snd y)
                @ replace_scan ml re rep s (Suc i) (if fst y = i then Suc i else fst y) (fst y)))"
  by pat_completeness auto
termination
  by (relation "measure (\<lambda>(ml, re, rep, s, i, nxt, pos). Suc (length s) - i)") auto

declare replace_scan.simps [simp del]

definition replace_all ::
  "bool \<Rightarrow> regex \<Rightarrow> (string \<Rightarrow> nat \<Rightarrow> nat \<Rightarrow> caps \<Rightarrow> string) \<Rightarrow> string \<Rightarrow> string" where
  "replace_all ml re rep s = replace_scan ml re rep s 0 0 0"

definition replace_first ::
  "bool \<Rightarrow> regex \<Rightarrow> (string \<Rightarrow> nat \<Rightarrow> nat \<Rightarrow> caps \<Rightarrow> string) \<Rightarrow> string \<Rightarrow> string" where
  "replace_first ml re rep s =
     (case find_match ml re s 0 of
        None \<Rightarrow> s
      | Some (st, e, c) \<Rightarrow> take st s @ rep s st e c @ drop e s)"

text \<open>
  A replacement string is expanded as \<open>GetSubstitution\<close> does: \<open>$$\<close>, \<open>$&\<close>, \<open>$`\<close>, \<open>$'\<close>,
  and \<open>$n\<close> or \<open>$nn\<close> for a group that the pattern has; any other \<open>$\<close> is literal.
\<close>

fun ngroups :: "regex \<Rightarrow> nat" where
  "ngroups (Seq a b) = ngroups a + ngroups b"
| "ngroups (Alt a b) = ngroups a + ngroups b"
| "ngroups (Rep mn mx g r) = ngroups r"
| "ngroups (Grp n r) = Suc (ngroups r)"
| "ngroups _ = 0"

definition cap_text :: "string \<Rightarrow> caps \<Rightarrow> nat \<Rightarrow> string" where
  "cap_text s c n = (case c n of None \<Rightarrow> [] | Some (a, b) \<Rightarrow> take (b - a) (drop a s))"

definition matched :: "string \<Rightarrow> nat \<Rightarrow> nat \<Rightarrow> string" where
  "matched s st e = take (e - st) (drop st s)"

definition digit_val :: "char \<Rightarrow> nat" where
  "digit_val c = of_char c - 48"

fun substitute :: "string \<Rightarrow> nat \<Rightarrow> string \<Rightarrow> nat \<Rightarrow> nat \<Rightarrow> caps \<Rightarrow> string" where
  "substitute [] m s st e c = []"
| "substitute [a] m s st e c = [a]"
| "substitute (a # b # t) m s st e c =
     (if a \<noteq> CHR ''$'' then a # substitute (b # t) m s st e c
      else if b = CHR ''$'' then CHR ''$'' # substitute t m s st e c
      else if b = CHR ''&'' then matched s st e @ substitute t m s st e c
      else if b = CHR 0x60 then take st s @ substitute t m s st e c
      else if b = CHR 0x27 then drop e s @ substitute t m s st e c
      else if js_digit b then
        (case t of
           d # t' \<Rightarrow>
             if js_digit d \<and> 1 \<le> 10 * digit_val b + digit_val d \<and> 10 * digit_val b + digit_val d \<le> m
               then cap_text s c (10 * digit_val b + digit_val d) @ substitute t' m s st e c
             else if 1 \<le> digit_val b \<and> digit_val b \<le> m
               then cap_text s c (digit_val b) @ substitute t m s st e c
             else a # substitute (b # t) m s st e c
         | [] \<Rightarrow>
             if 1 \<le> digit_val b \<and> digit_val b \<le> m then cap_text s c (digit_val b)
             else [a, b])
      else a # substitute (b # t) m s st e c)"

definition replace_all_str :: "bool \<Rightarrow> regex \<Rightarrow> string \<Rightarrow> string \<Rightarrow> string" where
  "replace_all_str ml re tpl s = replace_all ml re (substitute tpl (ngroups re)) s"

definition replace_first_str :: "bool \<Rightarrow> regex \<Rightarrow> string \<Rightarrow> string \<Rightarrow> string" where
  "replace_first_str ml re tpl s = replace_first ml re (substitute tpl (ngroups re)) s"

subsection \<open>\<open>trim\<close>, \<open>split\<close>, \<open>startsWith\<close>\<close>

definition trim :: "string \<Rightarrow> string" where
  "trim s = rev (dropWhile js_space (rev (dropWhile js_space s)))"

fun split_on :: "char \<Rightarrow> string \<Rightarrow> string list" where
  "split_on sep [] = [[]]"
| "split_on sep (a # t) =
     (if a = sep then [] # split_on sep t
      else (case split_on sep t of [] \<Rightarrow> [[a]] | l # ls \<Rightarrow> (a # l) # ls))"

subsection \<open>Writing patterns\<close>

fun seqs :: "regex list \<Rightarrow> regex" where
  "seqs [] = Eps"
| "seqs [r] = r"
| "seqs (r # rs) = Seq r (seqs rs)"

definition lits :: "string \<Rightarrow> regex" where
  "lits s = seqs (map Lit s)"

abbreviation (input) star :: "regex \<Rightarrow> regex" where "star r \<equiv> Rep 0 None True r"
abbreviation (input) star_lazy :: "regex \<Rightarrow> regex" where "star_lazy r \<equiv> Rep 0 None False r"
abbreviation (input) plus :: "regex \<Rightarrow> regex" where "plus r \<equiv> Rep 1 None True r"
abbreviation (input) plus_lazy :: "regex \<Rightarrow> regex" where "plus_lazy r \<equiv> Rep 1 None False r"
abbreviation (input) opt :: "regex \<Rightarrow> regex" where "opt r \<equiv> Rep 0 (Some 1) True r"
abbreviation (input) space :: regex where "space \<equiv> Cls False [CSpace]"
abbreviation (input) digit :: regex where "digit \<equiv> Cls False [CDigit]"
abbreviation (input) none_of :: "citem list \<Rightarrow> regex" where "none_of items \<equiv> Cls True items"
abbreviation (input) one_of :: "citem list \<Rightarrow> regex" where "one_of items \<equiv> Cls False items"

section \<open>The renderer: \<open>sanitize\<close> and \<open>renderMarkdown\<close>\<close>

text \<open>
  \<open>sanitize\<close> sets the string as the text of a fresh \<open>div\<close> and reads the markup back.
  The HTML serialisation of a text node escapes \<open>&\<close>, the no-break space, \<open><\<close> and \<open>>\<close>,
  and nothing else.
\<close>

definition sanitize :: "string \<Rightarrow> string" where
  "sanitize str = concat (map (\<lambda>c.
       if c = CHR ''&'' then ''&amp;''
       else if c = CHR 0xA0 then ''&nbsp;''
       else if c = CHR ''<'' then ''&lt;''
       else if c = CHR ''>'' then ''&gt;''
       else [c]) str)"

text \<open>
  The patterns of \<open>renderMarkdown\<close>, in the order of the source, each with its
  replacement.
  \<^item> \<^verbatim>\<open>/```([\s\S]*?)```/g\<close>, and \<^verbatim>\<open>/</g\<close> inside its callback
  \<^item> \<^verbatim>\<open>/`([^`]+)`/g\<close>
  \<^item> \<^verbatim>\<open>/^###\s+(.*)$/gm\<close>, \<^verbatim>\<open>/^##\s+(.*)$/gm\<close>, \<^verbatim>\<open>/^#\s+(.*)$/gm\<close>
  \<^item> \<^verbatim>\<open>/\*\*([^*]+)\*\*/g\<close>, \<^verbatim>\<open>/\*([^*]+)\*/g\<close>, \<^verbatim>\<open>/__([^_]+)__/g\<close>, \<^verbatim>\<open>/_([^_]+)_/g\<close>
  \<^item> \<^verbatim>\<open>/\[([^\]]+)\]\((https?:\/\/[^)\s]+)\)/g\<close>
  \<^item> \<^verbatim>\<open>/^(?:[-*+]\s.+(?:\n|$))+?/gm\<close> with \<^verbatim>\<open>/^[-*+]\s+/\<close> for an item
  \<^item> \<^verbatim>\<open>/^(?:\d+\.\s.+(?:\n|$))+?/gm\<close> with \<^verbatim>\<open>/^\d+\.\s+/\<close> for an item
  \<^item> \<^verbatim>\<open>/\n{2,}/g\<close> and \<^verbatim>\<open>/^(.+?)$/gm\<close>
\<close>

definition re_fence :: regex where
  "re_fence = seqs [lits ''```'', Grp 1 (star_lazy (one_of [CSpace, CNotSpace])), lits ''```'']"
definition re_lt :: regex where
  "re_lt = Lit CHR ''<''"
definition fence_cb :: "string \<Rightarrow> nat \<Rightarrow> nat \<Rightarrow> caps \<Rightarrow> string" where
  "fence_cb s st e c = ''<pre><code>'' @ replace_all_str False re_lt ''&lt;'' (cap_text s c 1) @ ''</code></pre>''"

definition re_code :: regex where
  "re_code = seqs [Lit CHR 0x60, Grp 1 (plus (none_of [CChar CHR 0x60])), Lit CHR 0x60]"
definition code_cb :: "string \<Rightarrow> nat \<Rightarrow> nat \<Rightarrow> caps \<Rightarrow> string" where
  "code_cb s st e c = ''<code>'' @ cap_text s c 1 @ ''</code>''"

definition re_h3 :: regex where
  "re_h3 = seqs [Bol, lits ''###'', plus space, Grp 1 (star Dot), Eol]"
definition re_h2 :: regex where
  "re_h2 = seqs [Bol, lits ''##'', plus space, Grp 1 (star Dot), Eol]"
definition re_h1 :: regex where
  "re_h1 = seqs [Bol, lits ''#'', plus space, Grp 1 (star Dot), Eol]"

definition re_bold :: regex where
  "re_bold = seqs [lits ''**'', Grp 1 (plus (none_of [CChar CHR ''*''])), lits ''**'']"
definition re_em :: regex where
  "re_em = seqs [lits ''*'', Grp 1 (plus (none_of [CChar CHR ''*''])), lits ''*'']"
definition re_ubold :: regex where
  "re_ubold = seqs [lits ''__'', Grp 1 (plus (none_of [CChar CHR ''_''])), lits ''__'']"
definition re_uem :: regex where
  "re_uem = seqs [lits ''_'', Grp 1 (plus (none_of [CChar CHR ''_''])), lits ''_'']"

definition re_link :: regex where
  "re_link = seqs [Lit CHR ''['', Grp 1 (plus (none_of [CChar CHR '']''])), Lit CHR '']'', Lit CHR ''('',
                   Grp 2 (seqs [lits ''http'', opt (Lit CHR ''s''), lits ''://'',
                                plus (none_of [CChar CHR '')'', CSpace])]),
                   Lit CHR '')'']"
definition link_tpl :: string where
  "link_tpl = ''<a href='' @ [CHR 0x22] @ ''$2'' @ [CHR 0x22] @ '' target='' @ [CHR 0x22] @ ''_blank'' @ [CHR 0x22]
              @ '' rel='' @ [CHR 0x22] @ ''noopener noreferrer'' @ [CHR 0x22] @ ''>$1</a>''"

definition re_ul :: regex where
  "re_ul = seqs [Bol, plus_lazy (seqs [one_of [CChar CHR ''-'', CChar CHR ''*'', CChar CHR ''+''], space,
                                       plus Dot, Alt (Lit CHR 0x0A) Eol])]"
definition re_ul_item :: regex where
  "re_ul_item = seqs [Bol, one_of [CChar CHR ''-'', CChar CHR ''*'', CChar CHR ''+''], plus space]"
definition re_ol :: regex where
  "re_ol = seqs [Bol, plus_lazy (seqs [plus digit, Lit CHR ''.'', space, plus Dot, Alt (Lit CHR 0x0A) Eol])]"
definition re_ol_item :: regex where
  "re_ol_item = seqs [Bol, plus digit, Lit CHR ''.'', plus space]"

definition list_items :: "regex \<Rightarrow> string \<Rightarrow> string" where
  "list_items re_item block =
     concat (map (\<lambda>li. ''<li>'' @ li @ ''</li>'')
              (map (\<lambda>l. trim (replace_first_str False re_item [] l))
                 (split_on (CHR 0x0A) (trim block))))"
definition ul_cb :: "string \<Rightarrow> nat \<Rightarrow> nat \<Rightarrow> caps \<Rightarrow> string" where
  "ul_cb s st e c = ''<ul>'' @ list_items re_ul_item (matched s st e) @ ''</ul>''"
definition ol_cb :: "string \<Rightarrow> nat \<Rightarrow> nat \<Rightarrow> caps \<Rightarrow> string" where
  "ol_cb s st e c = ''<ol>'' @ list_items re_ol_item (matched s st e) @ ''</ol>''"

definition re_para :: regex where
  "re_para = Rep 2 None True (Lit CHR 0x0A)"
definition re_line :: regex where
  "re_line = seqs [Bol, Grp 1 (plus_lazy Dot), Eol]"
definition starts_with :: "string \<Rightarrow> string \<Rightarrow> bool" where
  "starts_with s pre = (take (length pre) s = pre)"
definition line_cb :: "string \<Rightarrow> nat \<Rightarrow> nat \<Rightarrow> caps \<Rightarrow> string" where
  "line_cb s st e c =
     (let line = matched s st e
      in if starts_with line ''<'' then line else ''<span>'' @ line @ ''</span>'')"

text \<open>The stages, named after the comments that introduce them in the source.\<close>

definition code_fences :: "string \<Rightarrow> string" where
  "code_fences s = replace_all False re_fence fence_cb s"

definition inline_code :: "string \<Rightarrow> string" where
  "inline_code s = replace_all False re_code code_cb s"

definition headings :: "string \<Rightarrow> string" where
  "headings s =
     replace_all_str True re_h1 ''<h1>$1</h1>''
       (replace_all_str True re_h2 ''<h2>$1</h2>''
          (replace_all_str True re_h3 ''<h3>$1</h3>'' s))"

definition bold_italics :: "string \<Rightarrow> string" where
  "bold_italics s =
     replace_all_str False re_uem ''<em>$1</em>''
       (replace_all_str False re_ubold ''<strong>$1</strong>''
          (replace_all_str False re_em ''<em>$1</em>''
             (replace_all_str False re_bold ''<strong>$1</strong>'' s)))"

definition links :: "string \<Rightarrow> string" where
  "links s = replace_all_str False re_link link_tpl s"

definition unordered_lists :: "string \<Rightarrow> string" where
  "unordered_lists s = replace_all True re_ul ul_cb s"

definition ordered_lists :: "string \<Rightarrow> string" where
  "ordered_lists s = replace_all True re_ol ol_cb s"

definition paragraph_breaks :: "string \<Rightarrow> string" where
  "paragraph_breaks s =
     replace_all True re_line line_cb (replace_all_str False re_para ''</p><p>'' s)"

text \<open>
  \<open>renderMarkdown(raw, { isUser })\<close>. The body never reads \<open>isUser\<close>, so the model has
  no such argument.
\<close>

definition renderMarkdown :: "string \<Rightarrow> string" where
  "renderMarkdown raw =
     (let s = sanitize raw;
          s = code_fences s;
          s = inline_code s;
          s = headings s;
          s = bold_italics s;
          s = links s;
          s = unordered_lists s;
          s = ordered_lists s;
          s = paragraph_breaks s
      in ''<p>'' @ s @ ''</p>'')"

section \<open>The browser client: \<open>public/script.js\<close>\<close>

text \<open>
  The page's state: the \<open>history\<close> array, the message elements of the chat box, the
  input and the submit button, what was logged with \<open>console.error\<close>, and the bodies of
  the requests sent to \<open>/api/chat\<close>. The time stamp that \<open>appendMessage\<close> adds to an
  element and the scrolling are display only and are left out.

  The content of a message element is what the code last assigned to it: a string
  assigned to \<open>innerHTML\<close>, which the browser parses as markup, or a string assigned to
  \<open>textContent\<close>, which the browser shows as it is. The parsing itself is not modelled.
\<close>

datatype inner = InnerHTML string | TextContent string

record message =
  role :: string
  content :: string

record element =
  classes :: "string list"
  inner :: inner
  placeholder :: bool

record page =
  history :: "message list"
  chatBox :: "element list"
  input_value :: string
  input_disabled :: bool
  button_disabled :: bool
  console :: "jsexn list"
  requests :: "message list list"

text \<open>
  What \<open>fetch\<close> and \<open>resp.json()\<close> give for a request: no response at all, or a status
  with the parsed body (\<open>None\<close> when the body is not JSON). The network and the relay
  behind it are a parameter of the model, a function of the messages sent.
\<close>

datatype fetch_result = NetworkError | HttpResponse nat "jsval option"

definition resp_ok :: "nat \<Rightarrow> bool" where
  "resp_ok st = (200 \<le> st \<and> st \<le> 299)"

definition appendMessage :: "string \<Rightarrow> string \<Rightarrow> bool \<Rightarrow> page \<Rightarrow> page \<times> nat" where
  "appendMessage r text ph pg =
     (pg\<lparr>chatBox := chatBox pg @
          [\<lparr>classes = [''message'', if r = ''model'' then ''bot'' else r],
            inner = InnerHTML (renderMarkdown text),
            placeholder = ph\<rparr>]\<rparr>,
      length (chatBox pg))"

definition set_textContent :: "nat \<Rightarrow> string \<Rightarrow> page \<Rightarrow> page" where
  "set_textContent el text pg =
     pg\<lparr>chatBox := (chatBox pg)[el := (chatBox pg ! el)\<lparr>inner := TextContent text\<rparr>]\<rparr>"

definition add_class :: "nat \<Rightarrow> string \<Rightarrow> page \<Rightarrow> page" where
  "add_class el cl pg =
     pg\<lparr>chatBox := (chatBox pg)[el := (chatBox pg ! el)
          \<lparr>classes := (if cl \<in> set (classes (chatBox pg ! el)) then classes (chatBox pg ! el)
                       else classes (chatBox pg ! el) @ [cl])\<rparr>]\<rparr>"

definition setInputEnabled :: "bool \<Rightarrow> page \<Rightarrow> page" where
  "setInputEnabled enabled pg = pg\<lparr>input_disabled := \<not> enabled, button_disabled := \<not> enabled\<rparr>"

text \<open>
  \<open>data?.error || `HTTP ${resp.status}`\<close>, as the message of the \<open>Error\<close> under
  construction: \<open>new Error(v)\<close> converts \<open>v\<close> to a string, which may throw.
\<close>

definition error_message :: "jsval \<Rightarrow> nat \<Rightarrow> jsexn + string" where
  "error_message data st =
     (let e = optget data (Name ''error'')
      in if truthy e then to_string e else Inr (''HTTP '' @ show_nat st))"

text \<open>
  \<open>data && typeof data.result === "string" && data.result.trim() ? data.result.trim() : null\<close>
\<close>

definition ai_text :: "jsval \<Rightarrow> string option" where
  "ai_text data =
     (if truthy data
      then (case getp data (Name ''result'') of
              JStr r \<Rightarrow> (if trim r \<noteq> [] then Some (trim r) else None)
            | _ \<Rightarrow> None)
      else None)"

text \<open>The \<open>try\<close> of \<open>sendMessage\<close>, after the request has been answered with \<open>res\<close>.\<close>

definition sendMessage_try :: "fetch_result \<Rightarrow> nat \<Rightarrow> page \<Rightarrow> jsexn + page" where
  "sendMessage_try res thinkingEl pg =
     (case res of
        NetworkError \<Rightarrow> Inl (TypeError ''Failed to fetch'')
      | HttpResponse st None \<Rightarrow> Inl (Error ''Invalid JSON response'')
      | HttpResponse st (Some data) \<Rightarrow>
          (if \<not> resp_ok st
           then (case error_message data st of Inl e \<Rightarrow> Inl e | Inr m \<Rightarrow> Inl (Error m))
           else (case ai_text data of
                   None \<Rightarrow>
                     Inr (add_class thinkingEl ''error''
                            (set_textContent thinkingEl ''Sorry, no response received.'' pg))
                 | Some aiText \<Rightarrow>
                     Inr ((set_textContent thinkingEl aiText pg)
                            \<lparr>history := history pg @ [\<lparr>role = ''model'', content = aiText\<rparr>]\<rparr>))))"

definition sendMessage :: "(message list \<Rightarrow> fetch_result) \<Rightarrow> string \<Rightarrow> page \<Rightarrow> page" where
  "sendMessage net userText pg0 =
     (let pg1 = pg0\<lparr>history := history pg0 @ [\<lparr>role = ''user'', content = userText\<rparr>]\<rparr>;
          (pg2, thinkingEl) = appendMessage ''model'' ''Thinking...'' True pg1;
          pg3 = pg2\<lparr>requests := requests pg2 @ [history pg2]\<rparr>
      in (case sendMessage_try (net (history pg2)) thinkingEl pg3 of
            Inr pg \<Rightarrow> pg
          | Inl err \<Rightarrow>
              add_class thinkingEl ''error''
                (set_textContent thinkingEl ''Failed to get response from server.''
                   (pg3\<lparr>console := console pg3 @ [err]\<rparr>))))"

text \<open>The form's \<open>submit\<close> handler.\<close>

definition on_submit :: "(message list \<Rightarrow> fetch_result) \<Rightarrow> page \<Rightarrow> page" where
  "on_submit net pg =
     (let userText = trim (input_value pg)
      in if userText = [] then pg
         else
           let pg1 = fst (appendMessage ''user'' userText False pg);
               pg2 = pg1\<lparr>input_value := []\<rparr>;
               pg3 = setInputEnabled False pg2;
               pg4 = sendMessage net userText pg3
           in setInputEnabled True pg4)"

text \<open>
  The text that an exchange yields: the trimmed \<open>result\<close> of a response with a success
  status, when it is a string that is not empty after trimming.
\<close>

definition exchange_result :: "fetch_result \<Rightarrow> string option" where
  "exchange_result res =
     (case res of
        HttpResponse st (Some data) \<Rightarrow> (if resp_ok st then ai_text data else None)
      | _ \<Rightarrow> None)"

section \<open>Notions used in the proofs\<close>

text \<open>
  A pattern without capturing groups leaves the captures alone; a pattern that tests a
  single character has a test.
\<close>

fun no_grp :: "regex \<Rightarrow> bool" where
  "no_grp (Grp n r) = False"
| "no_grp (Seq a b) = (no_grp a \<and> no_grp b)"
| "no_grp (Alt a b) = (no_grp a \<and> no_grp b)"
| "no_grp (Rep mn mx g r) = no_grp r"
| "no_grp _ = True"

fun atom_test :: "regex \<Rightarrow> (char \<Rightarrow> bool) option" where
  "atom_test (Lit a) = Some (\<lambda>c. c = a)"
| "atom_test Dot = Some (\<lambda>c. \<not> line_terminator c)"
| "atom_test (Cls neg items) = Some (\<lambda>c. (\<exists>i \<in> set items. in_item i c) \<noteq> neg)"
| "atom_test _ = None"

section \<open>Example inputs\<close>

definition ex_hi :: jsval where
  "ex_hi = JObj [(''candidates'', JArr [JObj [(''content'',
             JObj [(''parts'', JArr [JObj [(''text'', JStr ''hi'')]])])]])]"

definition wrapped_parts :: "jsval list \<Rightarrow> jsval" where
  "wrapped_parts ps = JObj [(''response'', JObj [(''candidates'', JArr [JObj [(''content'',
                        JObj [(''parts'', JArr ps)])]])])]"

definition ex_ab :: jsval where
  "ex_ab = wrapped_parts [JObj [(''text'', JStr ''a'')], JObj [(''text'', JStr ''b'')]]"

definition ex_gap_ab :: jsval where
  "ex_gap_ab = wrapped_parts [JObj [], JObj [(''text'', JStr ''a'')], JObj [(''text'', JStr ''b'')]]"

definition ex_num :: jsval where
  "ex_num = JObj [(''candidates'', JArr [JObj [(''content'',
              JObj [(''parts'', JArr [JObj [(''text'', JNum 5)]])])]])]"

definition ex_empty_parts :: jsval where
  "ex_empty_parts = JObj [(''candidates'', JArr [JObj [(''content'', JObj [(''parts'', JArr [])])]])]"

definition page0 :: page where
  "page0 = \<lparr>history = [], chatBox = [], input_value = [], input_disabled = False,
            button_disabled = False, console = [], requests = []\<rparr>"

definition missing_key_error :: string where
  "missing_key_error = ''Missing GEMINI_API_KEY (or API_KEY) in environment.''"

definition net_hello :: "message list \<Rightarrow> fetch_result" where
  "net_hello ms = HttpResponse 200 (Some (JObj [(''result'', JStr '' hello '')]))"

definition net_down :: "message list \<Rightarrow> fetch_result" where
  "net_down ms = NetworkError"

definition net_503 :: "message list \<Rightarrow> fetch_result" where
  "net_503 ms = HttpResponse 503 (Some (JObj [(''error'', JStr missing_key_error)]))"

definition net_502 :: "message list \<Rightarrow> fetch_result" where
  "net_502 ms = HttpResponse 502 (Some (JObj []))"

definition env_none :: env where
  "env_none = \<lparr>env_GEMINI_API_KEY = None, env_API_KEY = None, env_GEMINI_MODEL = None\<rparr>"

definition pkg_echo :: genai where
  "pkg_echo = \<lparr>GeminiClient = Some ModelsClient, generateContent = (\<lambda>m c. Inr c)\<rparr>"

definition body_bad :: jsval where
  "body_bad = JObj [(''messages'', JStr ''not-an-array'')]"

definition body_hi :: jsval where
  "body_hi = JObj [(''messages'', JArr [JObj [(''role'', JStr ''user''), (''content'', JStr ''hi'')]])]"

section \<open>Properties of \<open>extractText\<close>\<close>

lemmas extract_simps = extractText_def extract_chain_def response_parts_def candidates_parts_def
  first_text_def optget_def show_nat.simps digit_char_def js_join_def JSON_stringify_def

lemma optchain_append: "optchain v (ks @ ks') = optchain (optchain v ks) ks'"
  by (induction ks arbitrary: v) simp_all

lemma json_ser_None: "json_ser ind v = None \<longleftrightarrow> v = JUndefined"
  by (cases v) (simp_all add: Let_def)

lemma JSON_stringify_string: "v \<noteq> JUndefined \<Longrightarrow> \<exists>s. JSON_stringify v = JStr s"
  by (cases "json_ser [] v") (simp_all add: JSON_stringify_def json_ser_None)

lemma join_parts_result: "join_parts p = Inr v \<Longrightarrow> v = JUndefined \<or> (\<exists>s. v = JStr s)"
  by (cases p) (auto split: sum.splits)

lemma join_parts_nullish: "nullish v \<Longrightarrow> join_parts v = Inr JUndefined"
  by (cases v) simp_all

text \<open>
  C1 (as amended). Extraction follows the priority order of the \<open>??\<close> chain: the text
  of the first part under \<open>response\<close> is returned when it is not nullish, and otherwise
  the text of the first part without the wrapper when that is not nullish. For
  \<open>{candidates:[{content:{parts:[{text:"hi"}]}}]}\<close> it returns \<open>"hi"\<close>. For
  \<open>{response:{candidates:[{content:{parts:[{text:"a"},{text:"b"}]}}]}}\<close> it returns \<open>"a"\<close>:
  the first alternative, the text of the first part, is not nullish and wins over the
  join. The join of the texts with a newline, \<open>"a\nb"\<close>, is what the same response
  gives when a part without text comes first. For \<open>{}\<close> it returns the JSON string \<open>"{}"\<close>.
\<close>

theorem extractText_priority:
  "(\<not> nullish (optchain resp (response_parts @ first_text)) \<longrightarrow>
      extractText resp = Inr (optchain resp (response_parts @ first_text)))
   \<and> (nullish (optchain resp (response_parts @ first_text))
        \<and> \<not> nullish (optchain resp (candidates_parts @ first_text)) \<longrightarrow>
      extractText resp = Inr (optchain resp (candidates_parts @ first_text)))
   \<and> extractText ex_hi = Inr (JStr ''hi'')
   \<and> extractText ex_ab = Inr (JStr ''a'')
   \<and> extractText ex_gap_ab = Inr (JStr (''a'' @ [CHR 0x0A] @ ''b''))
   \<and> extractText (JObj []) = Inr (JStr ''{}'')"
proof -
  have "extractText ex_hi = Inr (JStr ''hi'')
        \<and> extractText ex_ab = Inr (JStr ''a'')
        \<and> extractText ex_gap_ab = Inr (JStr (''a'' @ [CHR 0x0A] @ ''b''))
        \<and> extractText (JObj []) = Inr (JStr ''{}'')"
    by (simp add: extract_simps ex_hi_def ex_ab_def ex_gap_ab_def wrapped_parts_def)
  then show ?thesis
    by (simp add: extractText_def extract_chain_def Let_def)
qed

theorem extractText_priority_witness:
  "optchain ex_ab (response_parts @ first_text) = JStr ''a''
   \<and> extractText ex_ab = Inr (JStr ''a'')
   \<and> optchain ex_hi (response_parts @ first_text) = JUndefined
   \<and> optchain ex_hi (candidates_parts @ first_text) = JStr ''hi''
   \<and> extractText ex_hi = Inr (JStr ''hi'')"
  using extractText_priority [of ex_ab] extractText_priority [of ex_hi]
  by (simp add: ex_hi_def ex_ab_def wrapped_parts_def response_parts_def candidates_parts_def
        first_text_def optget_def show_nat.simps digit_char_def)

text \<open>
  C1 as stated fails: for the response with the two parts \<open>a\<close> and \<open>b\<close> under \<open>response\<close>,
  extraction does not return \<open>"a\nb"\<close>.
\<close>

theorem extractText_two_parts_not_joined:
  "extractText ex_ab \<noteq> Inr (JStr (''a'' @ [CHR 0x0A] @ ''b''))"
  by (simp add: extract_simps ex_ab_def wrapped_parts_def)

text \<open>
  C5 (as amended). For every value other than \<open>undefined\<close>, \<open>extractText\<close> does not throw
  and does not return \<open>undefined\<close>. It returns a string, unless the text of the first part
  (with or without the \<open>response\<close> wrapper) is a value that is neither nullish nor a
  string, which it returns as it is. When the chain of alternatives throws or yields a
  nullish value, the result is the JSON rendering of the whole response.
\<close>

theorem extractText_returns:
  assumes "resp \<noteq> JUndefined"
  shows "\<exists>v. extractText resp = Inr v \<and> v \<noteq> JUndefined
           \<and> ((\<exists>s. v = JStr s)
              \<or> (v = optchain resp (response_parts @ first_text) \<and> \<not> nullish v)
              \<or> (v = optchain resp (candidates_parts @ first_text) \<and> \<not> nullish v))
           \<and> ((\<forall>t. extract_chain resp = Inr t \<longrightarrow> nullish t) \<longrightarrow> v = JSON_stringify resp)"
proof -
  obtain s where s: "JSON_stringify resp = JStr s"
    using assms JSON_stringify_string by blast
  show ?thesis
  proof (cases "extract_chain resp")
    case (Inl e)
    then show ?thesis by (simp add: extractText_def s)
  next
    case (Inr t)
    show ?thesis
    proof (cases "nullish t")
      case True
      with Inr show ?thesis by (simp add: extractText_def s)
    next
      case False
      have "t \<noteq> JUndefined" using False by auto
      moreover have "(\<exists>s. t = JStr s)
              \<or> (t = optchain resp (response_parts @ first_text))
              \<or> (t = optchain resp (candidates_parts @ first_text))"
        using Inr False
        by (auto simp: extract_chain_def Let_def split: if_splits sum.splits dest: join_parts_result)
      ultimately show ?thesis using Inr False by (auto simp: extractText_def)
    qed
  qed
qed

theorem extractText_returns_witness:
  "JObj [] \<noteq> JUndefined \<and> extractText (JObj []) = Inr (JSON_stringify (JObj []))
   \<and> ex_num \<noteq> JUndefined \<and> (\<exists>v. extractText ex_num = Inr v \<and> v \<noteq> JUndefined)"
  using extractText_returns [of "JObj []"] extractText_returns [of ex_num]
  by (auto simp: extract_simps ex_num_def)

text \<open>
  C5 as stated fails: a first part whose \<open>text\<close> is the number 5 makes \<open>extractText\<close>
  return that number, and for \<open>undefined\<close> it returns \<open>undefined\<close>. Neither is a string.
\<close>

theorem extractText_not_a_string:
  "extractText ex_num = Inr (JNum 5) \<and> extractText JUndefined = Inr JUndefined"
  by (simp add: extract_simps ex_num_def)

text \<open>
  C10. When extraction reaches a join over an empty \<open>parts\<close> array, it returns the empty
  string and not the JSON rendering: either the \<open>parts\<close> under \<open>response\<close> are \<open>[]\<close> and the
  second alternative is nullish, or there are no \<open>parts\<close> under \<open>response\<close> and the
  \<open>parts\<close> without the wrapper are \<open>[]\<close>.
\<close>

theorem extractText_empty_parts:
  assumes "(optchain resp response_parts = JArr []
              \<and> nullish (optchain resp (candidates_parts @ first_text)))
         \<or> (nullish (optchain resp response_parts)
              \<and> optchain resp candidates_parts = JArr [])"
  shows "extractText resp = Inr (JStr [])"
  using assms
  by (auto simp: extractText_def extract_chain_def optchain_append first_text_def optget_def
        js_join_def join_parts_nullish)

theorem extractText_empty_parts_witness:
  "extractText ex_empty_parts = Inr (JStr [])
   \<and> extractText ex_empty_parts \<noteq> Inr (JSON_stringify ex_empty_parts)"
  using extractText_empty_parts [of ex_empty_parts]
  by (simp add: ex_empty_parts_def response_parts_def candidates_parts_def optget_def
        show_nat.simps digit_char_def JSON_stringify_def)

section \<open>Properties of the relay's handler\<close>

text \<open>
  C6. \<open>POST /api/chat\<close> answers 500 with the \<open>error\<close> "messages must be an array"
  whenever \<open>messages\<close> is not an array: the handler returns a response, no exception
  escapes it. When \<open>messages\<close> is an array and no credential is configured it answers
  503 with the error "Missing GEMINI_API_KEY (or API_KEY) in environment.".
\<close>

theorem chat_handler_errors:
  "(\<not> is_array (request_messages req_body) \<longrightarrow>
      chat_handler e pkg req_body =
        Inr \<lparr>status = 500, body = JObj [(''error'', JStr ''messages must be an array'')]\<rparr>)
   \<and> (is_array (request_messages req_body) \<and> \<not> has_key e \<longrightarrow>
      chat_handler e pkg req_body =
        Inr \<lparr>status = 503,
             body = JObj [(''error'', JStr ''Missing GEMINI_API_KEY (or API_KEY) in environment.'')]\<rparr>)"
  by (cases "request_messages req_body") (simp_all add: chat_handler_def chat_try_def getClient_def)

theorem chat_handler_errors_witness:
  "chat_handler env_none pkg_echo body_bad =
     Inr \<lparr>status = 500, body = JObj [(''error'', JStr ''messages must be an array'')]\<rparr>
   \<and> chat_handler env_none pkg_echo body_hi =
     Inr \<lparr>status = 503,
          body = JObj [(''error'', JStr ''Missing GEMINI_API_KEY (or API_KEY) in environment.'')]\<rparr>"
  using chat_handler_errors [of body_bad env_none pkg_echo]
        chat_handler_errors [of body_hi env_none pkg_echo]
  by (simp add: request_messages_def body_bad_def body_hi_def has_key_def API_KEY_def
        or_env_def env_none_def)

section \<open>Properties of the client\<close>

lemma all_space_dropWhile: "\<forall>c \<in> set s. js_space c \<Longrightarrow> dropWhile js_space s = []"
  by (induction s) simp_all

lemma trim_all_space: "\<forall>c \<in> set s. js_space c \<Longrightarrow> trim s = []"
  by (simp add: trim_def all_space_dropWhile)

lemma history_set_textContent [simp]: "history (set_textContent el t pg) = history pg"
  by (simp add: set_textContent_def)

lemma history_add_class [simp]: "history (add_class el t pg) = history pg"
  by (simp add: add_class_def)

lemma console_set_textContent [simp]: "console (set_textContent el t pg) = console pg"
  by (simp add: set_textContent_def)

lemma console_add_class [simp]: "console (add_class el t pg) = console pg"
  by (simp add: add_class_def)

text \<open>
  C7. A submission that is empty or consists of white space only is ignored: the
  whole page state is unchanged, so the history is unchanged and no request is sent.
\<close>

theorem on_submit_blank:
  assumes "\<forall>c \<in> set (input_value pg). js_space c"
  shows "on_submit net pg = pg"
  using assms by (simp add: on_submit_def trim_all_space)

theorem on_submit_blank_witness:
  "on_submit net_hello (page0\<lparr>input_value := ''  '' @ [CHR 0x0A, CHR 0x09]\<rparr>)
     = page0\<lparr>input_value := ''  '' @ [CHR 0x0A, CHR 0x09]\<rparr>
   \<and> requests (on_submit net_hello (page0\<lparr>input_value := ''  '' @ [CHR 0x0A, CHR 0x09]\<rparr>)) = []"
  using on_submit_blank [of "page0\<lparr>input_value := ''  '' @ [CHR 0x0A, CHR 0x09]\<rparr>" net_hello]
  by (simp add: js_space_def page0_def)

text \<open>
  C3 (as amended). \<open>sendMessage\<close> first appends the user's message, on every path. After
  that it appends exactly one message, the model's trimmed reply, when the exchange
  succeeds with a result that is not empty after trimming, and nothing on any other
  path. So the history grows by two messages on such a success and by one otherwise.
\<close>

theorem sendMessage_history:
  "history (sendMessage net userText pg) =
     history pg @ [\<lparr>role = ''user'', content = userText\<rparr>]
     @ (case exchange_result (net (history pg @ [\<lparr>role = ''user'', content = userText\<rparr>])) of
          Some aiText \<Rightarrow> [\<lparr>role = ''model'', content = aiText\<rparr>]
        | None \<Rightarrow> [])"
  by (simp add: sendMessage_def sendMessage_try_def appendMessage_def exchange_result_def Let_def
           split: fetch_result.splits option.splits sum.splits)

theorem sendMessage_history_witness:
  "history (sendMessage net_hello ''hi'' page0) =
     [\<lparr>role = ''user'', content = ''hi''\<rparr>, \<lparr>role = ''model'', content = ''hello''\<rparr>]
   \<and> history (sendMessage net_down ''hi'' page0) = [\<lparr>role = ''user'', content = ''hi''\<rparr>]"
  using sendMessage_history [of net_hello "''hi''" page0]
        sendMessage_history [of net_down "''hi''" page0]
  by (simp add: exchange_result_def net_down_def net_hello_def page0_def resp_ok_def ai_text_def
        trim_def js_space_def)

text \<open>
  C3 as stated fails: on a failure path (no response) the history is one message
  longer after \<open>sendMessage\<close>, not unchanged, and on a successful exchange it is two
  messages longer, not one.
\<close>

theorem sendMessage_history_growth:
  "length (history (sendMessage net_down ''hi'' page0)) = length (history page0) + 1
   \<and> length (history (sendMessage net_hello ''hi'' page0)) = length (history page0) + 2"
  by (simp add: sendMessage_def sendMessage_try_def appendMessage_def Let_def net_down_def
        net_hello_def page0_def resp_ok_def ai_text_def trim_def js_space_def)

text \<open>
  Whatever the relay replies with a status that is not a success, with a body that is
  JSON or not, the placeholder ends with the same fixed text.
\<close>

lemma sendMessage_failure_text:
  assumes "net (history pg @ [\<lparr>role = ''user'', content = userText\<rparr>]) = HttpResponse st reply"
    and "\<not> resp_ok st"
  shows "inner (last (chatBox (sendMessage net userText pg)))
           = TextContent ''Failed to get response from server.''"
  using assms
  by (simp add: sendMessage_def sendMessage_try_def appendMessage_def Let_def add_class_def
        set_textContent_def split: option.splits sum.splits)

text \<open>
  C4. The claim asks that the relay's \<open>error\<close> field, or else "HTTP <status>", is shown
  to the user. The client builds an \<open>Error\<close> with exactly that message and throws it
  inside its own \<open>try\<close>; the \<open>catch\<close> logs it and writes the fixed text "Failed to get
  response from server." into the placeholder. After a 503 reply that carries the
  relay's message for a missing credential, the placeholder shows the fixed text and the
  relay's message is in the console only; after a 502 reply without an \<open>error\<close> field,
  likewise for "HTTP 502". The history holds the user's message, which \<open>sendMessage\<close>
  appended before the request (see C3), and no model message.
\<close>

theorem sendMessage_error_not_shown:
  "chatBox (sendMessage net_503 ''hi'' page0) =
     [\<lparr>classes = [''message'', ''bot'', ''error''],
       inner = TextContent ''Failed to get response from server.'',
       placeholder = True\<rparr>]
   \<and> console (sendMessage net_503 ''hi'' page0) = [Error missing_key_error]
   \<and> chatBox (sendMessage net_502 ''hi'' page0) =
     [\<lparr>classes = [''message'', ''bot'', ''error''],
       inner = TextContent ''Failed to get response from server.'',
       placeholder = True\<rparr>]
   \<and> console (sendMessage net_502 ''hi'' page0) = [Error ''HTTP 502'']
   \<and> history (sendMessage net_503 ''hi'' page0) = [\<lparr>role = ''user'', content = ''hi''\<rparr>]"
  by (simp add: sendMessage_def sendMessage_try_def appendMessage_def Let_def net_503_def
        net_502_def page0_def resp_ok_def add_class_def set_textContent_def error_message_def
        optget_def missing_key_error_def show_nat.simps digit_char_def)

section \<open>Properties of the renderer\<close>

text \<open>
  C9. The claim asks that a run of consecutive list lines becomes one list element. The
  pattern's outer quantifier is lazy (\<open>+?\<close>) and nothing follows it, so every match is a
  single line: the two-line run \<open>- a\<close>, \<open>- b\<close> is rendered as two \<open>ul\<close> elements of one
  item each, and the ordered run \<open>1. a\<close>, \<open>2. b\<close> as two \<open>ol\<close> elements.
\<close>

theorem list_run_rendered_per_line:
  "renderMarkdown (''- a'' @ [CHR 0x0A] @ ''- b'') = ''<p><ul><li>a</li></ul><ul><li>b</li></ul></p>''
   \<and> renderMarkdown (''1. a'' @ [CHR 0x0A] @ ''2. b'') = ''<p><ol><li>a</li></ol><ol><li>b</li></ol></p>''"
  by code_simp

text \<open>
  C2. The claim asks that every HTML-significant character of the input is escaped before
  the markdown stages, so that raw input never becomes live markup. \<open>sanitize\<close> escapes
  \<open>&\<close>, \<open><\<close> and \<open>>\<close> and leaves the double quote as it is, and the link stage copies the
  URL that it matched into the quoted \<open>href\<close> attribute of the anchor that it writes. A
  double quote in the URL ends the attribute's value, and the text after it becomes a
  further attribute of the renderer's own tag: here an \<open>onmouseover\<close> handler that the input
  wrote. The link pattern accepts the URL because it begins with \<open>http://\<close>.
\<close>

theorem renderMarkdown_attribute_injection:
  "sanitize (''[a](http://x.com/'' @ [CHR 0x22] @ ''onmouseover='' @ [CHR 0x22] @ ''alert(1))'')
     = ''[a](http://x.com/'' @ [CHR 0x22] @ ''onmouseover='' @ [CHR 0x22] @ ''alert(1))''
   \<and> renderMarkdown (''[a](http://x.com/'' @ [CHR 0x22] @ ''onmouseover='' @ [CHR 0x22] @ ''alert(1))'')
     = ''<p><a href='' @ [CHR 0x22] @ ''http://x.com/'' @ [CHR 0x22]
       @ ''onmouseover='' @ [CHR 0x22] @ ''alert(1'' @ [CHR 0x22]
       @ '' target='' @ [CHR 0x22] @ ''_blank'' @ [CHR 0x22]
       @ '' rel='' @ [CHR 0x22] @ ''noopener noreferrer'' @ [CHR 0x22] @ ''>a</a>)</p>''"
  by code_simp

section \<open>Properties of the matcher\<close>

lemma rmatch_RepE [consumes 1, case_names stop iter]:
  assumes "y \<in> set (rmatch ml (Rep mn mx g r) s (p, c))"
  obtains "y = (p, c)" "mn = 0 \<or> mx = Some 0"
  | x where "mx \<noteq> Some 0" "x \<in> set (rmatch ml r s (p, c))"
      "\<not> (mn = 0 \<and> \<not> (p < fst x \<and> fst x \<le> length s))"
      "y \<in> set (rmatch ml (Rep (mn - 1) (map_option (\<lambda>k. k - 1) mx) g r) s x)"
  using assms by (auto simp: Let_def split: if_splits)

declare rmatch.simps(10) [simp del]

lemma rmatch_Seq_cases:
  "y \<in> set (rmatch ml (Seq a b) s x) \<longleftrightarrow> (\<exists>z \<in> set (rmatch ml a s x). y \<in> set (rmatch ml b s z))"
  by (cases x) auto

lemma rmatch_mono: "y \<in> set (rmatch ml r s x) \<Longrightarrow> fst x \<le> fst y"
proof (induction ml r s x arbitrary: y rule: rmatch.induct)
  case (7 ml a b s p c)
  from "7.prems" obtain z where z: "z \<in> set (rmatch ml a s (p, c))" and y: "y \<in> set (rmatch ml b s z)"
    by (auto simp: rmatch_Seq_cases)
  from "7.IH"(1) [OF z] "7.IH"(2) [OF z y] show ?case by simp
next
  case (10 ml mn mx g r s p c)
  from "10.prems" show ?case
  proof (cases rule: rmatch_RepE)
    case stop
    then show ?thesis by simp
  next
    case (iter x)
    from "10.IH"(1) [OF iter(1,2)] "10.IH"(2) [OF iter] show ?thesis by simp
  qed
qed (auto split: if_splits)

lemma rmatch_bound: "y \<in> set (rmatch ml r s x) \<Longrightarrow> fst x \<le> length s \<Longrightarrow> fst y \<le> length s"
proof (induction ml r s x arbitrary: y rule: rmatch.induct)
  case (7 ml a b s p c)
  from "7.prems" obtain z where z: "z \<in> set (rmatch ml a s (p, c))" and y: "y \<in> set (rmatch ml b s z)"
    by (auto simp: rmatch_Seq_cases)
  from "7.IH"(1) [OF z] "7.IH"(2) [OF z y] "7.prems"(2) show ?case by simp
next
  case (10 ml mn mx g r s p c)
  from "10.prems"(1) show ?case
  proof (cases rule: rmatch_RepE)
    case stop
    then show ?thesis using "10.prems"(2) by simp
  next
    case (iter x)
    from "10.IH"(1) [OF iter(1,2)] "10.IH"(2) [OF iter] "10.prems"(2) show ?thesis by simp
  qed
qed (auto split: if_splits)

lemma rmatch_caps: "y \<in> set (rmatch ml r s x) \<Longrightarrow> no_grp r \<Longrightarrow> snd y = snd x"
proof (induction ml r s x arbitrary: y rule: rmatch.induct)
  case (7 ml a b s p c)
  from "7.prems" obtain z where z: "z \<in> set (rmatch ml a s (p, c))" and y: "y \<in> set (rmatch ml b s z)"
    by (auto simp: rmatch_Seq_cases)
  from "7.IH"(1) [OF z] "7.IH"(2) [OF z y] "7.prems"(2) show ?case by simp
next
  case (10 ml mn mx g r s p c)
  from "10.prems"(1) show ?case
  proof (cases rule: rmatch_RepE)
    case stop
    then show ?thesis by simp
  next
    case (iter x)
    from "10.IH"(1) [OF iter(1,2)] "10.IH"(2) [OF iter] "10.prems"(2) show ?thesis by simp
  qed
qed (auto split: if_splits)

lemma rmatch_atom:
  "atom_test r = Some P \<Longrightarrow> rmatch ml r s (p, c) = (if p < length s \<and> P (s ! p) then [(Suc p, c)] else [])"
  by (cases r) auto

lemma rmatch_Rep_atom:
  assumes "atom_test r = Some P"
  shows "y \<in> set (rmatch ml (Rep mn None g r) s (p, c)) \<Longrightarrow>
         snd y = c \<and> p + mn \<le> fst y \<and> (\<forall>k. p \<le> k \<and> k < fst y \<longrightarrow> k < length s \<and> P (s ! k))"
proof (induction "mn + (length s - p)" arbitrary: mn p rule: less_induct)
  case less
  from less.prems show ?case
  proof (cases rule: rmatch_RepE)
    case stop
    then show ?thesis by auto
  next
    case (iter x)
    from iter(2) have xe: "x = (Suc p, c)" and pl: "p < length s" and Pp: "P (s ! p)"
      by (auto simp: rmatch_atom [OF assms] split: if_splits)
    have "(mn - 1) + (length s - Suc p) < mn + (length s - p)" using pl by arith
    from less.hyps [OF this] iter(4) xe
    have ih: "snd y = c \<and> Suc p + (mn - 1) \<le> fst y \<and> (\<forall>k. Suc p \<le> k \<and> k < fst y \<longrightarrow> k < length s \<and> P (s ! k))"
      by simp
    have "k < length s \<and> P (s ! k)" if "p \<le> k" "k < fst y" for k
      using that ih pl Pp by (cases "k = p") auto
    then show ?thesis using ih by auto
  qed
qed

lemma in_Eps: "y \<in> set (rmatch ml Eps s x) \<longleftrightarrow> y = x"
  by (cases x) auto
lemma in_Lit: "y \<in> set (rmatch ml (Lit a) s x) \<longleftrightarrow> fst x < length s \<and> s ! fst x = a \<and> y = (Suc (fst x), snd x)"
  by (cases x) auto
lemma in_Dot: "y \<in> set (rmatch ml Dot s x) \<longleftrightarrow> fst x < length s \<and> \<not> line_terminator (s ! fst x) \<and> y = (Suc (fst x), snd x)"
  by (cases x) auto
lemma in_Cls: "y \<in> set (rmatch ml (Cls neg items) s x) \<longleftrightarrow>
    fst x < length s \<and> ((\<exists>i \<in> set items. in_item i (s ! fst x)) \<noteq> neg) \<and> y = (Suc (fst x), snd x)"
  by (cases x) auto
lemma in_Bol: "y \<in> set (rmatch ml Bol s x) \<longleftrightarrow>
    (fst x = 0 \<or> (ml \<and> fst x \<le> length s \<and> line_terminator (s ! (fst x - 1)))) \<and> y = x"
  by (cases x) auto
lemma in_Eol: "y \<in> set (rmatch ml Eol s x) \<longleftrightarrow>
    (fst x = length s \<or> (ml \<and> fst x < length s \<and> line_terminator (s ! fst x))) \<and> y = x"
  by (cases x) auto
lemma in_Alt: "y \<in> set (rmatch ml (Alt a b) s x) \<longleftrightarrow> y \<in> set (rmatch ml a s x) \<or> y \<in> set (rmatch ml b s x)"
  by (cases x) auto
lemma in_Grp: "y \<in> set (rmatch ml (Grp n r) s x) \<longleftrightarrow>
    (\<exists>z. z \<in> set (rmatch ml r s x) \<and> y = (fst z, (snd z)(n \<mapsto> (fst x, fst z))))"
  by (cases x) force
lemma in_Seq: "y \<in> set (rmatch ml (Seq a b) s x) \<longleftrightarrow>
    (\<exists>z. z \<in> set (rmatch ml a s x) \<and> y \<in> set (rmatch ml b s z))"
  by (cases x) auto

declare rmatch.simps [simp del]

lemmas in_rmatch = in_Eps in_Lit in_Dot in_Cls in_Bol in_Eol in_Alt in_Grp in_Seq

lemma in_Rep_atom:
  assumes "atom_test r = Some P" and "y \<in> set (rmatch ml (Rep mn None g r) s x)"
  shows "snd y = snd x \<and> fst x + mn \<le> fst y \<and> (\<forall>k. fst x \<le> k \<and> k < fst y \<longrightarrow> k < length s \<and> P (s ! k))"
  using rmatch_Rep_atom [OF assms(1), of y ml mn g s "fst x" "snd x"] assms(2) by simp

lemma in_Rep_Cls:
  "y \<in> set (rmatch ml (Rep mn None g (Cls neg items)) s x) \<Longrightarrow>
   snd y = snd x \<and> fst x + mn \<le> fst y
   \<and> (\<forall>k. fst x \<le> k \<and> k < fst y \<longrightarrow> k < length s \<and> ((\<exists>i \<in> set items. in_item i (s ! k)) \<noteq> neg))"
  using in_Rep_atom [of "Cls neg items" _ y ml mn g s x] by simp

lemma in_Rep_Dot:
  "y \<in> set (rmatch ml (Rep mn None g Dot) s x) \<Longrightarrow>
   snd y = snd x \<and> fst x + mn \<le> fst y
   \<and> (\<forall>k. fst x \<le> k \<and> k < fst y \<longrightarrow> k < length s \<and> \<not> line_terminator (s ! k))"
  using in_Rep_atom [of Dot _ y ml mn g s x] by simp

lemma in_Rep_Lit:
  "y \<in> set (rmatch ml (Rep mn None g (Lit a)) s x) \<Longrightarrow>
   snd y = snd x \<and> fst x + mn \<le> fst y
   \<and> (\<forall>k. fst x \<le> k \<and> k < fst y \<longrightarrow> k < length s \<and> s ! k = a)"
  using in_Rep_atom [of "Lit a" _ y ml mn g s x] by simp

lemma in_opt_Lit:
  assumes "y \<in> set (rmatch ml (Rep 0 (Some (Suc 0)) g (Lit a)) s x)"
  shows "y = x \<or> (y = (Suc (fst x), snd x) \<and> fst x < length s \<and> s ! fst x = a)"
proof -
  from assms have "y \<in> set (rmatch ml (Rep 0 (Some (Suc 0)) g (Lit a)) s (fst x, snd x))" by simp
  then show ?thesis
  proof (cases rule: rmatch_RepE)
    case stop
    then show ?thesis by simp
  next
    case (iter z)
    from iter(2) have "z = (Suc (fst x), snd x) \<and> fst x < length s \<and> s ! fst x = a"
      by (simp add: in_Lit)
    moreover from this iter(4) have "y = z" by (simp add: rmatch.simps(10))
    ultimately show ?thesis by simp
  qed
qed

lemma take_drop_nths: "p + n \<le> length s \<Longrightarrow> take n (drop p s) = map (\<lambda>k. s ! (p + k)) [0..<n]"
  by (auto intro!: nth_equalityI)

lemma take_Suc_drop: "a < length s \<Longrightarrow> take (Suc n) (drop a s) = s ! a # take n (drop (Suc a) s)"
  by (simp flip: Cons_nth_drop_Suc)

lemma re_link_match:
  assumes "y \<in> set (rmatch ml re_link s x)"
  shows "\<exists>a b. snd y 2 = Some (a, b) \<and> b \<le> length s \<and>
      ((a + 8 \<le> b \<and> take 7 (drop a s) = ''http://'') \<or> (a + 9 \<le> b \<and> take 8 (drop a s) = ''https://''))"
  using assms
  apply (clarsimp simp: re_link_def lits_def in_rmatch)
  apply (drule in_Rep_Cls)+
  apply (drule in_opt_Lit)
  apply (auto simp: take_Suc_drop eval_nat_numeral)
  done

lemma ngroups_re_link: "ngroups re_link = 2"
  by (simp add: re_link_def lits_def)

lemma substitute_link_tpl:
  "substitute link_tpl 2 s st e c =
     (''<a href='' @ [CHR 0x22]) @ cap_text s c 2 @
       ([CHR 0x22] @ '' target='' @ [CHR 0x22] @ ''_blank'' @ [CHR 0x22]
        @ '' rel='' @ [CHR 0x22] @ ''noopener noreferrer'' @ [CHR 0x22] @ ''>'' @ cap_text s c 1 @ ''</a>'')"
  by (simp add: link_tpl_def js_digit_def digit_val_def)

lemma starts_with_append:
  assumes "take (length p) xs = p"
  shows "starts_with (pre @ xs @ rest) (pre @ p)"
proof -
  from assms have "length p \<le> length xs"
    by (metis length_take min.cobounded1)
  then show ?thesis using assms by (simp add: starts_with_def)
qed

lemma link_href_scheme:
  assumes "y \<in> set (rmatch ml re_link s x)"
  shows "starts_with (substitute link_tpl (ngroups re_link) s i (fst y) (snd y)) (''<a href='' @ [CHR 0x22] @ ''http://'')
       \<or> starts_with (substitute link_tpl (ngroups re_link) s i (fst y) (snd y)) (''<a href='' @ [CHR 0x22] @ ''https://'')"
proof -
  from re_link_match [OF assms] obtain a b where
    c: "snd y 2 = Some (a, b)" and b: "b \<le> length s" and
    d: "(a + 8 \<le> b \<and> take 7 (drop a s) = ''http://'') \<or> (a + 9 \<le> b \<and> take 8 (drop a s) = ''https://'')"
    by blast
  have cap: "cap_text s (snd y) 2 = take (b - a) (drop a s)"
    by (simp add: cap_text_def c)
  from d show ?thesis
  proof
    assume h: "a + 8 \<le> b \<and> take 7 (drop a s) = ''http://''"
    then have "min 7 (b - a) = 7" by arith
    then have "take 7 (cap_text s (snd y) 2) = take 7 (drop a s)"
      unfolding cap by (simp only: take_take)
    with h have "take 7 (cap_text s (snd y) 2) = ''http://''" by metis
    moreover have "length ''http://'' = 7" by simp
    ultimately have "take (length ''http://'') (cap_text s (snd y) 2) = ''http://''" by (simp only:)
    from starts_with_append [OF this]
    have "starts_with (substitute link_tpl 2 s i (fst y) (snd y)) ((''<a href='' @ [CHR 0x22]) @ ''http://'')"
      unfolding substitute_link_tpl .
    then show ?thesis unfolding ngroups_re_link by simp
  next
    assume h: "a + 9 \<le> b \<and> take 8 (drop a s) = ''https://''"
    then have "min 8 (b - a) = 8" by arith
    then have "take 8 (cap_text s (snd y) 2) = take 8 (drop a s)"
      unfolding cap by (simp only: take_take)
    with h have "take 8 (cap_text s (snd y) 2) = ''https://''" by metis
    moreover have "length ''https://'' = 8" by simp
    ultimately have "take (length ''https://'') (cap_text s (snd y) 2) = ''https://''" by (simp only:)
    from starts_with_append [OF this]
    have "starts_with (substitute link_tpl 2 s i (fst y) (snd y)) ((''<a href='' @ [CHR 0x22]) @ ''https://'')"
      unfolding substitute_link_tpl .
    then show ?thesis unfolding ngroups_re_link by simp
  qed
qed

text \<open>
  C8. The renderer turns \<open>[a](https://x.com)\<close> into an anchor with
  \<open>href="https://x.com"\<close>, \<open>target="_blank"\<close> and \<open>rel="noopener noreferrer"\<close>, and leaves
  \<open>[a](javascript:alert(1))\<close> as literal text. In every string, at every position, a match
  of the link pattern is replaced by a text that begins \<open><a href="http://\<close> or
  \<open><a href="https://\<close>: the link stage writes no anchor with another scheme.
\<close>

theorem link_transform:
  "renderMarkdown ''[a](https://x.com)'' =
     ''<p><a href='' @ [CHR 0x22] @ ''https://x.com'' @ [CHR 0x22] @ '' target='' @ [CHR 0x22] @ ''_blank'' @ [CHR 0x22]
       @ '' rel='' @ [CHR 0x22] @ ''noopener noreferrer'' @ [CHR 0x22] @ ''>a</a></p>''
   \<and> renderMarkdown ''[a](javascript:alert(1))'' = ''<p><span>[a](javascript:alert(1))</span></p>''
   \<and> (\<forall>s i y. y \<in> set (rmatch False re_link s (i, Map.empty)) \<longrightarrow>
          starts_with (substitute link_tpl (ngroups re_link) s i (fst y) (snd y)) (''<a href='' @ [CHR 0x22] @ ''http://'')
        \<or> starts_with (substitute link_tpl (ngroups re_link) s i (fst y) (snd y)) (''<a href='' @ [CHR 0x22] @ ''https://''))"
proof (intro conjI allI impI)
  show "renderMarkdown ''[a](https://x.com)'' =
     ''<p><a href='' @ [CHR 0x22] @ ''https://x.com'' @ [CHR 0x22] @ '' target='' @ [CHR 0x22] @ ''_blank'' @ [CHR 0x22]
       @ '' rel='' @ [CHR 0x22] @ ''noopener noreferrer'' @ [CHR 0x22] @ ''>a</a></p>''"
    by code_simp
  show "renderMarkdown ''[a](javascript:alert(1))'' = ''<p><span>[a](javascript:alert(1))</span></p>''"
    by code_simp
qed (rule link_href_scheme)

theorem link_transform_witness:
  "rmatch False re_link ''[a](https://x.com)'' (0, Map.empty) \<noteq> []
   \<and> starts_with (substitute link_tpl (ngroups re_link) ''[a](https://x.com)'' 0
         (fst (hd (rmatch False re_link ''[a](https://x.com)'' (0, Map.empty))))
         (snd (hd (rmatch False re_link ''[a](https://x.com)'' (0, Map.empty)))))
       (''<a href='' @ [CHR 0x22] @ ''https://'')"
proof -
  have ne: "rmatch False re_link ''[a](https://x.com)'' (0, Map.empty) \<noteq> []"
    by code_simp
  then have "hd (rmatch False re_link ''[a](https://x.com)'' (0, Map.empty))
      \<in> set (rmatch False re_link ''[a](https://x.com)'' (0, Map.empty))"
    by simp
  with link_transform have
    "starts_with (substitute link_tpl (ngroups re_link) ''[a](https://x.com)'' 0
         (fst (hd (rmatch False re_link ''[a](https://x.com)'' (0, Map.empty))))
         (snd (hd (rmatch False re_link ''[a](https://x.com)'' (0, Map.empty)))))
       (''<a href='' @ [CHR 0x22] @ ''http://'')
     \<or> starts_with (substitute link_tpl (ngroups re_link) ''[a](https://x.com)'' 0
         (fst (hd (rmatch False re_link ''[a](https://x.com)'' (0, Map.empty))))
         (snd (hd (rmatch False re_link ''[a](https://x.com)'' (0, Map.empty)))))
       (''<a href='' @ [CHR 0x22] @ ''https://'')"
    by blast
  moreover have "\<not> starts_with (substitute link_tpl (ngroups re_link) ''[a](https://x.com)'' 0
         (fst (hd (rmatch False re_link ''[a](https://x.com)'' (0, Map.empty))))
         (snd (hd (rmatch False re_link ''[a](https://x.com)'' (0, Map.empty)))))
       (''<a href='' @ [CHR 0x22] @ ''http://'')"
    by code_simp
  ultimately show ?thesis using ne by blast
qed


end
